theory Spec2Isabelle
  imports Complex_Main "HOL-Library.Word"
begin

section \<open>Configuration constants (utils.py, class Config)\<close>

definition HEAD_POSE_THRESHOLD :: real where
  "HEAD_POSE_THRESHOLD = 15"

definition BLINK_THRESHOLD :: real where
  "BLINK_THRESHOLD = 25 / 100"

definition SMILE_THRESHOLD :: real where
  "SMILE_THRESHOLD = 6 / 10"

definition VOICE_SIMILARITY_THRESHOLD :: real where
  "VOICE_SIMILARITY_THRESHOLD = 85 / 100"

definition LIP_SYNC_THRESHOLD :: real where
  "LIP_SYNC_THRESHOLD = 3 / 10"

section \<open>Python strings and bytes\<close>

text \<open>
  A Python \<open>str\<close> is a \<open>string\<close>, a \<open>bytes\<close> value a list of 8-bit words. The
  operations below are the ones \<open>CryptoUtils\<close> calls: \<open>str.startswith\<close>,
  \<open>str.ljust\<close>, \<open>str.rjust\<close>, \<open>bytes.rjust\<close>, the slice \<open>s[2:]\<close> (\<open>drop 2\<close>)
  and \<open>bytes.fromhex\<close>.
\<close>

type_synonym byte = "8 word"

definition startswith :: "string \<Rightarrow> string \<Rightarrow> bool" where
  "startswith s p = (take (length p) s = p)"

definition ljust :: "'a list \<Rightarrow> nat \<Rightarrow> 'a \<Rightarrow> 'a list" where
  "ljust s w c = s @ replicate (w - length s) c"

definition rjust :: "'a list \<Rightarrow> nat \<Rightarrow> 'a \<Rightarrow> 'a list" where
  "rjust s w c = replicate (w - length s) c @ s"

definition is_space :: "char \<Rightarrow> bool" where
  "is_space c = (c = CHR '' '' \<or> c = CHR 0x09 \<or> c = CHR 0x0A \<or> c = CHR 0x0B
                 \<or> c = CHR 0x0C \<or> c = CHR 0x0D)"

definition hex_digit_value :: "char \<Rightarrow> nat option" where
  "hex_digit_value c =
     (let n = (of_char c :: nat) in
      if 48 \<le> n \<and> n \<le> 57 then Some (n - 48)
      else if 97 \<le> n \<and> n \<le> 102 then Some (n - 87)
      else if 65 \<le> n \<and> n \<le> 70 then Some (n - 55)
      else None)"

text \<open>
  \<open>bytes.fromhex\<close>: ASCII whitespace before a byte is skipped, every byte is two
  hexadecimal digits of either case, and anything else raises \<open>ValueError\<close>
  (\<open>None\<close> here).
\<close>

fun fromhex :: "string \<Rightarrow> byte list option" where
  "fromhex [] = Some []"
| "fromhex [c] = (if is_space c then Some [] else None)"
| "fromhex (c # d # ds) =
     (if is_space c then fromhex (d # ds)
      else case hex_digit_value c of
             None \<Rightarrow> None
           | Some hi \<Rightarrow>
               (case hex_digit_value d of
                  None \<Rightarrow> None
                | Some lo \<Rightarrow> map_option ((#) (of_nat (16 * hi + lo))) (fromhex ds)))"

text \<open>Lower-case hexadecimal rendering, as \<open>hexdigest()\<close> and \<open>HexBytes.hex()\<close> print.\<close>

definition hex_digit :: "nat \<Rightarrow> char" where
  "hex_digit n = ''0123456789abcdef'' ! n"

definition hex_of_byte :: "byte \<Rightarrow> string" where
  "hex_of_byte b = [hex_digit (unat b div 16), hex_digit (unat b mod 16)]"

definition hex_of_bytes :: "byte list \<Rightarrow> string" where
  "hex_of_bytes bs = concat (map hex_of_byte bs)"

text \<open>The 32 big-endian bytes of a 256-bit value (a digest, or \<open>r\<close> and \<open>s\<close>).\<close>

definition bytes32 :: "256 word \<Rightarrow> byte list" where
  "bytes32 w = map (\<lambda>i. ucast (drop_bit (8 * (31 - i)) w)) [0..<32]"

section \<open>CryptoUtils (utils.py)\<close>

text \<open>
  The cryptographic primitives come from \<open>hashlib\<close>, \<open>eth_utils\<close> and
  \<open>eth_account\<close>; they are parameters of the model. A call that raises returns
  \<open>None\<close>. A signature is the 65-byte value \<open>r || s || v\<close>, and
  \<open>signature.signature.hex()\<close> prints it with the \<open>0x\<close> prefix.
\<close>

record signature =
  sig_r :: "256 word"
  sig_s :: "256 word"
  sig_v :: byte

record 'k crypto =
  keccak :: "byte list \<Rightarrow> byte list"
  sha256 :: "string \<Rightarrow> 256 word"
  from_key :: "string \<Rightarrow> 'k option"
  sign_hash :: "'k \<Rightarrow> byte list \<Rightarrow> signature option"
  sign_message :: "'k \<Rightarrow> string \<Rightarrow> signature option"

definition signature_bytes :: "signature \<Rightarrow> byte list" where
  "signature_bytes sg = bytes32 (sig_r sg) @ bytes32 (sig_s sg) @ [sig_v sg]"

definition signature_hex :: "signature \<Rightarrow> string" where
  "signature_hex sg = ''0x'' @ hex_of_bytes (signature_bytes sg)"

definition generate_hash :: "'k crypto \<Rightarrow> string \<Rightarrow> string" where
  "generate_hash lib data = hex_of_bytes (bytes32 (sha256 lib data))"

text \<open>
  \<open>sign_data_simple\<close>: an EIP-191 personal-message signature over the text
  \<open>data.wallet\<close>; when the key or the signing raises, \<open>0x\<close> followed by the SHA-256
  hex digest of \<open>data\<close> and \<open>wallet\<close> concatenated.
\<close>

definition sign_data_simple :: "'k crypto \<Rightarrow> string \<Rightarrow> string \<Rightarrow> string \<Rightarrow> string" where
  "sign_data_simple lib data wallet_address private_key_hex =
     (let message = data @ ''.'' @ wallet_address;
          fallback = ''0x'' @ generate_hash lib (data @ wallet_address)
      in case from_key lib private_key_hex of
           None \<Rightarrow> fallback
         | Some account \<Rightarrow>
             (case sign_message lib account message of
                None \<Rightarrow> fallback
              | Some sg \<Rightarrow> signature_hex sg))"

text \<open>
  The first half of \<open>generate_ethereum_signature\<close> (lines 86 to 95): the prefix and
  the padding of the two arguments. The padded values are also what the fallback
  receives, since the function reassigns its arguments.
\<close>

definition normalize_hash :: "string \<Rightarrow> string" where
  "normalize_hash biometric_hash =
     (let h = (if \<not> startswith biometric_hash ''0x'' then ''0x'' @ biometric_hash
               else biometric_hash)
      in if length h < 66 then ljust h 66 CHR ''0'' else h)"

definition normalize_address :: "string \<Rightarrow> string" where
  "normalize_address user_address =
     (if \<not> startswith user_address ''0x'' then ''0x'' @ user_address else user_address)"

text \<open>Lines 101 to 108: the message hash; \<open>None\<close> when \<open>bytes.fromhex\<close> raises.\<close>

definition message_hash :: "'k crypto \<Rightarrow> string \<Rightarrow> string \<Rightarrow> byte list option" where
  "message_hash lib biometric_hash user_address =
     (case fromhex (rjust (drop 2 (normalize_address user_address)) 40 CHR ''0'') of
        None \<Rightarrow> None
      | Some address_bytes \<Rightarrow>
          (case fromhex (rjust (drop 2 (normalize_hash biometric_hash)) 64 CHR ''0'') of
             None \<Rightarrow> None
           | Some hash_bytes \<Rightarrow>
               Some (keccak lib (rjust address_bytes 32 0 @ hash_bytes))))"

text \<open>
  The \<open>try\<close> block of \<open>generate_ethereum_signature\<close>: \<open>None\<close> is an exception
  raised by the hex parsing, by \<open>Account.from_key\<close> or by \<open>signHash\<close>.
\<close>

definition ethereum_signature_try :: "'k crypto \<Rightarrow> string \<Rightarrow> string \<Rightarrow> string \<Rightarrow> string option" where
  "ethereum_signature_try lib biometric_hash user_address backend_private_key =
     (case message_hash lib biometric_hash user_address of
        None \<Rightarrow> None
      | Some mh \<Rightarrow>
          (case from_key lib backend_private_key of
             None \<Rightarrow> None
           | Some backend_account \<Rightarrow>
               (case sign_hash lib backend_account mh of
                  None \<Rightarrow> None
                | Some sg \<Rightarrow> Some (signature_hex sg))))"

definition generate_ethereum_signature :: "'k crypto \<Rightarrow> string \<Rightarrow> string \<Rightarrow> string \<Rightarrow> string" where
  "generate_ethereum_signature lib biometric_hash user_address backend_private_key =
     (case ethereum_signature_try lib biometric_hash user_address backend_private_key of
        Some s \<Rightarrow> s
      | None \<Rightarrow>
          sign_data_simple lib (normalize_hash biometric_hash)
            (normalize_address user_address) backend_private_key)"

section \<open>Signal analysers (utils.py, FaceProcessor and VoiceProcessor)\<close>

text \<open>
  What the landmark model and the geometry give for one video frame: the two eye
  aspect ratios, the mouth width-to-height ratio, yaw and pitch in degrees, the
  flattened lip landmarks, and the value of \<open>time.time()\<close> when the frame is analysed.
\<close>

record frame =
  frame_time :: real
  left_ear :: real
  right_ear :: real
  smile_ratio :: real
  yaw :: real
  pitch :: real
  lip_landmarks :: "real list"

definition detect_blink :: "frame \<Rightarrow> bool" where
  "detect_blink f = ((left_ear f + right_ear f) / 2 < BLINK_THRESHOLD)"

definition detect_smile :: "frame \<Rightarrow> bool" where
  "detect_smile f = (smile_ratio f > SMILE_THRESHOLD)"

text \<open>\<open>VoiceProcessor.compare_voiceprints\<close>: the cosine similarity of two embeddings.\<close>

definition dot :: "real list \<Rightarrow> real list \<Rightarrow> real" where
  "dot u v = sum_list (map2 (*) u v)"

definition norm2 :: "real list \<Rightarrow> real" where
  "norm2 v = sqrt (dot v v)"

definition compare_voiceprints :: "real list \<Rightarrow> real list \<Rightarrow> real" where
  "compare_voiceprints voiceprint1 voiceprint2 =
     dot voiceprint1 voiceprint2 / (norm2 voiceprint1 * norm2 voiceprint2)"

section \<open>The verification session (verify.py, class BiometricVerification)\<close>

text \<open>
  The session object. \<open>verification_results\<close> is the four booleans; the rows of the
  table \<open>verification_logs\<close>, the instructions shown to the user and the calls of
  \<open>send_to_smart_contract\<close> are kept as lists, in order.
\<close>

record log_entry =
  log_user_id :: string
  log_face_liveness :: bool
  log_voice_match :: bool
  log_lip_sync :: bool
  log_overall_result :: bool
  log_hash_value :: string
  log_signature :: string

datatype instruction =
    Stage1_Face_Liveness
  | Stage2_Voice
  | Stage3_Processing
  | Recording
  | Completed
  | Failed string

record verification =
  user_id :: string
  wallet_address :: string
  is_verifying :: bool
  face_liveness :: bool
  voice_match :: bool
  lip_sync :: bool
  overall_result :: bool
  current_challenge :: "string option"
  voice_phrase :: "string option"
  lip_sequence :: "real list list"
  audio_buffer :: "real list"
  blink_count :: nat
  last_blink_time :: real
  instructions :: "instruction list"
  verification_logs :: "log_entry list"
  submitted :: "(string \<times> string \<times> string) list"

text \<open>\<open>str\<close> of a non-negative integer.\<close>

fun str_nat :: "nat \<Rightarrow> string" where
  "str_nat n = (if n < 10 then [hex_digit n] else str_nat (n div 10) @ [hex_digit (n mod 10)])"

text \<open>
  \<open>__init__\<close>: without a wallet address (\<open>None\<close> or the empty string) the session
  takes \<open>0x\<close> followed by the number drawn by \<open>random.randint(100000, 999999)\<close>.
\<close>

definition new_verification :: "string \<Rightarrow> string \<Rightarrow> nat \<Rightarrow> verification" where
  "new_verification uid wallet drawn =
     \<lparr> user_id = uid,
       wallet_address = (if wallet = [] then ''0x'' @ str_nat drawn else wallet),
       is_verifying = False,
       face_liveness = False, voice_match = False, lip_sync = False,
       overall_result = False, current_challenge = None, voice_phrase = None,
       lip_sequence = [], audio_buffer = [], blink_count = 0, last_blink_time = 0,
       instructions = [], verification_logs = [], submitted = [] \<rparr>"

definition reset_verification_state :: "verification \<Rightarrow> verification" where
  "reset_verification_state st =
     st\<lparr> face_liveness := False, voice_match := False, lip_sync := False,
         overall_result := False, current_challenge := None, voice_phrase := None,
         lip_sequence := [], audio_buffer := [], blink_count := 0 \<rparr>"

definition update_instruction :: "instruction \<Rightarrow> verification \<Rightarrow> verification" where
  "update_instruction i st = st\<lparr> instructions := instructions st @ [i] \<rparr>"

definition log_verification ::
  "bool \<Rightarrow> string \<Rightarrow> string \<Rightarrow> verification \<Rightarrow> verification" where
  "log_verification overall hash_value sig st =
     st\<lparr> verification_logs := verification_logs st @
           [\<lparr> log_user_id = user_id st, log_face_liveness = face_liveness st,
              log_voice_match = voice_match st, log_lip_sync = lip_sync st,
              log_overall_result = overall, log_hash_value = hash_value,
              log_signature = sig \<rparr>] \<rparr>"

subsection \<open>Frame analysis\<close>

definition py_lower :: "string \<Rightarrow> string" where
  "py_lower s = map (\<lambda>c. if 65 \<le> (of_char c :: nat) \<and> (of_char c :: nat) \<le> 90
                          then char_of ((of_char c :: nat) + 32) else c) s"

text \<open>The Python test \<open>sub in s\<close> on strings.\<close>

fun contains :: "string \<Rightarrow> string \<Rightarrow> bool" where
  "contains sub [] = (sub = [])"
| "contains sub (c # cs) = (take (length sub) (c # cs) = sub \<or> contains sub cs)"

definition analyze_challenge :: "string \<Rightarrow> frame \<Rightarrow> verification \<Rightarrow> verification" where
  "analyze_challenge ch f st =
     (if contains ''blink'' (py_lower ch) then
        (if detect_blink f then
           (if frame_time f - last_blink_time st > 5 / 10
            then st\<lparr> blink_count := blink_count st + 1, last_blink_time := frame_time f \<rparr>
            else st)
         else st)
      else if contains ''smile'' (py_lower ch) then
        (if detect_smile f then st\<lparr> face_liveness := True \<rparr> else st)
      else if contains ''turn'' (py_lower ch) \<or> contains ''head'' (py_lower ch) then
        (if \<bar>yaw f\<bar> > HEAD_POSE_THRESHOLD \<or> \<bar>pitch f\<bar> > HEAD_POSE_THRESHOLD
         then st\<lparr> face_liveness := True \<rparr> else st)
      else st)"

definition analyze_frame :: "verification \<Rightarrow> frame \<Rightarrow> verification" where
  "analyze_frame st f =
     (let st1 = (case current_challenge st of
                   None \<Rightarrow> st
                 | Some ch \<Rightarrow> if ch = [] then st else analyze_challenge ch f st)
      in if length (audio_buffer st1) > 0
         then st1\<lparr> lip_sequence := lip_sequence st1 @ [lip_landmarks f] \<rparr>
         else st1)"

subsection \<open>Stage 1: the face liveness challenge\<close>

datatype challenge_type = blink | smile | head_left | head_right | head_up

fun challenge_text :: "challenge_type \<Rightarrow> string" where
  "challenge_text blink = ''Please blink twice''"
| "challenge_text smile = ''Please smile''"
| "challenge_text head_left = ''Please turn your head left''"
| "challenge_text head_right = ''Please turn your head right''"
| "challenge_text head_up = ''Please tilt your head up''"

definition timeout :: real where
  "timeout = 8"

text \<open>
  While the workflow thread polls, the video thread analyses frames. The schedule of
  a stage is the list of these events in the order they happen: \<open>Frame f\<close> is one call
  of \<open>analyze_frame\<close>, \<open>Poll t\<close> one evaluation of the loop condition with
  \<open>time.time() = t\<close>. The loop leaves at the first poll at or after the deadline, and
  at the end of the schedule.
\<close>

datatype event = Frame frame | Poll real

fun face_poll :: "challenge_type \<Rightarrow> real \<Rightarrow> verification \<Rightarrow> event list \<Rightarrow> verification" where
  "face_poll ch start_time st [] = st"
| "face_poll ch start_time st (Frame f # es) = face_poll ch start_time (analyze_frame st f) es"
| "face_poll ch start_time st (Poll t # es) =
     (if t - start_time < timeout then
        (if ch = blink \<and> blink_count st \<ge> 2 then st\<lparr> face_liveness := True \<rparr>
         else if ch \<in> {smile, head_left, head_right, head_up} \<and> face_liveness st then st
         else face_poll ch start_time st es)
      else st)"

definition perform_face_liveness_challenge ::
  "challenge_type \<Rightarrow> real \<Rightarrow> event list \<Rightarrow> verification \<Rightarrow> bool \<times> verification" where
  "perform_face_liveness_challenge ch start_time events st =
     (let st1 = st\<lparr> current_challenge := Some (challenge_text ch), blink_count := 0,
                    face_liveness := False \<rparr>;
          st2 = face_poll ch start_time st1 events;
          st3 = st2\<lparr> current_challenge := None \<rparr>
      in (face_liveness st3, st3))"

subsection \<open>Stage 2: the voice challenge with lip sync\<close>

text \<open>
  What the session reads from outside while it runs: the random choices, the clock,
  the events of the face stage, the recording (\<open>None\<close> when the sound device raises),
  the frames analysed during the recording window, the MFCC extractor, the number
  drawn by \<open>random.uniform(0.8, 0.95)\<close>, the correlation of the lip movement with
  the audio energy (\<open>compute_lip_movement\<close>, \<open>compute_audio_energy\<close> and
  \<open>compute_correlation\<close>, \<open>None\<close> when one of them raises), the signing keys,
  and whether the store raises (an \<open>sqlite3\<close> error) when the row of a passed
  session is written.
\<close>

record 'k environment =
  crypto_lib :: "'k crypto"
  challenge :: challenge_type
  face_start_time :: real
  face_events :: "event list"
  phrase :: string
  recording :: "real list option"
  recording_frames :: "frame list"
  extract_mfcc :: "real list \<Rightarrow> real list option"
  voice_similarity :: real
  lip_correlation :: "real list list \<Rightarrow> real list \<Rightarrow> real option"
  verification_timestamp :: nat
  env_backend_private_key :: "string option"
  created_backend_private_key :: string
  log_raises :: bool

definition analyze_lip_sync :: "'k environment \<Rightarrow> verification \<Rightarrow> real list \<Rightarrow> bool" where
  "analyze_lip_sync env st audio_data =
     (if length (lip_sequence st) < 2 then False
      else case lip_correlation env (lip_sequence st) audio_data of
             None \<Rightarrow> False
           | Some correlation \<Rightarrow> \<bar>correlation\<bar> > LIP_SYNC_THRESHOLD)"

text \<open>
  Lines 487 to 501: the voice features are extracted and hashed, and the hashes are
  not used; the similarity is the number drawn at random.
\<close>

definition voice_match_step ::
  "'k environment \<Rightarrow> verification \<Rightarrow> real list \<Rightarrow> verification option" where
  "voice_match_step env st audio_data =
     (if length audio_data > 0 then
        (case extract_mfcc env audio_data of
           None \<Rightarrow> None
         | Some voice_features \<Rightarrow>
             Some (st\<lparr> voice_match := voice_similarity env > VOICE_SIMILARITY_THRESHOLD \<rparr>))
      else Some st)"

text \<open>Lines 503 to 510.\<close>

definition lip_sync_step :: "'k environment \<Rightarrow> verification \<Rightarrow> real list \<Rightarrow> verification" where
  "lip_sync_step env st audio_data =
     (if length (lip_sequence st) > 10
      then st\<lparr> lip_sync := analyze_lip_sync env st audio_data \<rparr>
      else st\<lparr> lip_sync := False \<rparr>)"

text \<open>The analysis after the recording window (lines 487 to 523).\<close>

definition voice_analysis ::
  "'k environment \<Rightarrow> verification \<Rightarrow> real list \<Rightarrow> bool \<times> verification" where
  "voice_analysis env st audio_data =
     (case voice_match_step env st audio_data of
        None \<Rightarrow> (False, st)
      | Some st1 \<Rightarrow>
          (let st2 = lip_sync_step env st1 audio_data
           in (voice_match st2 \<and> lip_sync st2, st2)))"

definition perform_voice_challenge :: "'k environment \<Rightarrow> verification \<Rightarrow> bool \<times> verification" where
  "perform_voice_challenge env st =
     (let st1 = st\<lparr> voice_phrase := Some (phrase env), audio_buffer := [], lip_sequence := [] \<rparr>;
          st2 = update_instruction Recording st1
      in case recording env of
           None \<Rightarrow> (False, st2)
         | Some audio_data \<Rightarrow>
             voice_analysis env (foldl analyze_frame st2 (recording_frames env)) audio_data)"

subsection \<open>Stage 3: fusion, attestation and the log\<close>

text \<open>\<open>str\<close> of a boolean, and the \<open>repr\<close> of the results.\<close>

definition str_bool :: "bool \<Rightarrow> string" where
  "str_bool b = (if b then ''True'' else ''False'')"

definition quoted :: "string \<Rightarrow> string" where
  "quoted s = [CHR 0x27] @ s @ [CHR 0x27]"

definition str_results :: "verification \<Rightarrow> string" where
  "str_results st =
     ''{'' @ quoted ''face_liveness'' @ '': '' @ str_bool (face_liveness st) @ '', ''
     @ quoted ''voice_match'' @ '': '' @ str_bool (voice_match st) @ '', ''
     @ quoted ''lip_sync'' @ '': '' @ str_bool (lip_sync st) @ '', ''
     @ quoted ''overall_result'' @ '': '' @ str_bool (overall_result st) @ ''}''"

definition verification_data :: "'k environment \<Rightarrow> verification \<Rightarrow> string" where
  "verification_data env st =
     ''user:'' @ user_id st @ '',timestamp:'' @ str_nat (verification_timestamp env)
     @ '',results:'' @ str_results st"

definition backend_private_key :: "'k environment \<Rightarrow> string" where
  "backend_private_key env =
     (case env_backend_private_key env of
        None \<Rightarrow> created_backend_private_key env
      | Some k \<Rightarrow> if k = [] then created_backend_private_key env else k)"

definition all_passed :: "verification \<Rightarrow> bool" where
  "all_passed st = (face_liveness st \<and> voice_match st \<and> lip_sync st)"

text \<open>
  \<open>_perform_final_verification\<close>. The whole body is a \<open>try\<close> block whose handler
  returns \<open>False\<close>: when writing the row raises, nothing is written or submitted,
  \<open>overall_result\<close> stays as it is and the result is \<open>False\<close>. The signing never
  raises (it has its own handlers), and \<open>send_to_smart_contract\<close> handles its own
  errors; its result is only printed.
\<close>

definition perform_final_verification ::
  "'k environment \<Rightarrow> verification \<Rightarrow> bool \<times> verification" where
  "perform_final_verification env st =
     (if all_passed st then
        (let biometric_hash = generate_hash (crypto_lib env) (verification_data env st);
             sig = generate_ethereum_signature (crypto_lib env) biometric_hash
                     (wallet_address st) (backend_private_key env)
         in if log_raises env then (False, st)
            else
              (let st1 = log_verification (all_passed st) biometric_hash sig st;
                   st2 = st1\<lparr> submitted := submitted st1
                                 @ [(biometric_hash, sig, wallet_address st1)] \<rparr>
               in (True, st2\<lparr> overall_result := True \<rparr>)))
      else (False, st))"

definition verification_successful :: "verification \<Rightarrow> verification" where
  "verification_successful st = update_instruction Completed st"

text \<open>
  \<open>_verification_failed\<close> writes its row outside any handler of its own; that write
  is taken as accepted.
\<close>

definition verification_failed :: "string \<Rightarrow> verification \<Rightarrow> verification" where
  "verification_failed reason st = log_verification False [] [] (update_instruction (Failed reason) st)"

subsection \<open>The workflow\<close>

definition final_stage :: "'k environment \<Rightarrow> verification \<Rightarrow> verification" where
  "final_stage env st =
     (case perform_final_verification env (update_instruction Stage3_Processing st) of
        (True, st1) \<Rightarrow> verification_successful st1
      | (False, st1) \<Rightarrow> verification_failed ''Final verification failed'' st1)"

definition voice_stage :: "'k environment \<Rightarrow> verification \<Rightarrow> verification" where
  "voice_stage env st =
     (case perform_voice_challenge env (update_instruction Stage2_Voice st) of
        (False, st1) \<Rightarrow> verification_failed ''Voice challenge failed'' st1
      | (True, st1) \<Rightarrow> final_stage env st1)"

definition verification_workflow :: "'k environment \<Rightarrow> verification \<Rightarrow> verification" where
  "verification_workflow env st =
     (let st' =
        (case perform_face_liveness_challenge (challenge env) (face_start_time env)
                (face_events env) (update_instruction Stage1_Face_Liveness st) of
           (False, st1) \<Rightarrow> verification_failed ''Face liveness challenge failed'' st1
         | (True, st1) \<Rightarrow> voice_stage env st1)
      in st'\<lparr> is_verifying := False \<rparr>)"

definition start_verification_process :: "'k environment \<Rightarrow> verification \<Rightarrow> verification" where
  "start_verification_process env st =
     (if is_verifying st then st
      else verification_workflow env (reset_verification_state (st\<lparr> is_verifying := True \<rparr>)))"

section \<open>Dynamic time warping (utils.py, LipSyncProcessor.dtw_alignment)\<close>

text \<open>
  A cell of the table is a \<open>float64\<close>: a number, an infinity or \<open>NaN\<close>. The table
  starts from \<open>np.inf\<close>; \<open>NaN\<close> is what the final division gives for \<open>0 / 0\<close>,
  when both sequences are empty.
\<close>

datatype npfloat = Fin real | PInf | NInf | NaN

fun np_add :: "npfloat \<Rightarrow> npfloat \<Rightarrow> npfloat" where
  "np_add (Fin x) (Fin y) = Fin (x + y)"
| "np_add NaN _ = NaN"
| "np_add _ NaN = NaN"
| "np_add PInf NInf = NaN"
| "np_add NInf PInf = NaN"
| "np_add PInf _ = PInf"
| "np_add _ PInf = PInf"
| "np_add NInf _ = NInf"
| "np_add _ NInf = NInf"

fun np_sub :: "npfloat \<Rightarrow> npfloat \<Rightarrow> npfloat" where
  "np_sub (Fin x) (Fin y) = Fin (x - y)"
| "np_sub NaN _ = NaN"
| "np_sub _ NaN = NaN"
| "np_sub PInf PInf = NaN"
| "np_sub NInf NInf = NaN"
| "np_sub PInf _ = PInf"
| "np_sub NInf _ = NInf"
| "np_sub (Fin x) PInf = NInf"
| "np_sub (Fin x) NInf = PInf"

fun np_abs :: "npfloat \<Rightarrow> npfloat" where
  "np_abs (Fin x) = Fin \<bar>x\<bar>"
| "np_abs PInf = PInf"
| "np_abs NInf = PInf"
| "np_abs NaN = NaN"

fun np_less :: "npfloat \<Rightarrow> npfloat \<Rightarrow> bool" where
  "np_less (Fin x) (Fin y) = (x < y)"
| "np_less (Fin x) PInf = True"
| "np_less NInf (Fin y) = True"
| "np_less NInf PInf = True"
| "np_less _ _ = False"

text \<open>Python's \<open>min(a, b, c)\<close>: the first argument no later one is smaller than.\<close>

definition py_min3 :: "npfloat \<Rightarrow> npfloat \<Rightarrow> npfloat \<Rightarrow> npfloat" where
  "py_min3 a b c =
     (let m = (if np_less b a then b else a) in if np_less c m then c else m)"

fun np_div :: "npfloat \<Rightarrow> nat \<Rightarrow> npfloat" where
  "np_div (Fin x) k =
     (if k = 0 then (if x = 0 then NaN else if x > 0 then PInf else NInf)
      else Fin (x / real k))"
| "np_div PInf k = PInf"
| "np_div NInf k = NInf"
| "np_div NaN k = NaN"

definition np_full :: "nat \<Rightarrow> nat \<Rightarrow> npfloat \<Rightarrow> npfloat list list" where
  "np_full rows cols v = replicate rows (replicate cols v)"

definition get2 :: "npfloat list list \<Rightarrow> nat \<Rightarrow> nat \<Rightarrow> npfloat" where
  "get2 M i j = M ! i ! j"

definition set2 :: "npfloat list list \<Rightarrow> nat \<Rightarrow> nat \<Rightarrow> npfloat \<Rightarrow> npfloat list list" where
  "set2 M i j v = M[i := (M ! i)[j := v]]"

text \<open>
  The cost \<open>abs(seq1[i-1] - seq2[j-1])\<close> is computed in the element type of the
  arrays. For \<open>float64\<close> arrays it follows the rules of infinities and \<open>NaN\<close>
  (on finite values the arithmetic is taken as exact). For arrays of signed
  integers of a fixed width the subtraction and \<open>abs\<close> wrap around, so the absolute
  value of the least integer is itself; for unsigned integers the subtraction wraps
  around and \<open>abs\<close> changes nothing. Adding the cost to a cell converts it to
  \<open>float64\<close>.
\<close>

definition float64_cost :: "npfloat \<Rightarrow> npfloat \<Rightarrow> npfloat" where
  "float64_cost a b = np_abs (np_sub a b)"




text \<open>\<open>dtw_alignment\<close>, with the cost of the element type as its first argument.\<close>

definition dtw_cell ::
  "('e \<Rightarrow> 'e \<Rightarrow> npfloat) \<Rightarrow> 'e list \<Rightarrow> 'e list \<Rightarrow> nat \<Rightarrow> npfloat list list \<Rightarrow> nat
     \<Rightarrow> npfloat list list" where
  "dtw_cell cost_of seq1 seq2 i M j =
     (let cost = cost_of (seq1 ! (i - 1)) (seq2 ! (j - 1))
      in set2 M i j
           (np_add cost
              (py_min3 (get2 M (i - 1) j) (get2 M i (j - 1)) (get2 M (i - 1) (j - 1)))))"

definition dtw_row ::
  "('e \<Rightarrow> 'e \<Rightarrow> npfloat) \<Rightarrow> 'e list \<Rightarrow> 'e list \<Rightarrow> npfloat list list \<Rightarrow> nat
     \<Rightarrow> npfloat list list" where
  "dtw_row cost_of seq1 seq2 M i = foldl (dtw_cell cost_of seq1 seq2 i) M [1..<length seq2 + 1]"

definition dtw_matrix ::
  "('e \<Rightarrow> 'e \<Rightarrow> npfloat) \<Rightarrow> 'e list \<Rightarrow> 'e list \<Rightarrow> npfloat list list" where
  "dtw_matrix cost_of seq1 seq2 =
     foldl (dtw_row cost_of seq1 seq2)
       (set2 (np_full (length seq1 + 1) (length seq2 + 1) PInf) 0 0 (Fin 0))
       [1..<length seq1 + 1]"

definition dtw_alignment :: "('e \<Rightarrow> 'e \<Rightarrow> npfloat) \<Rightarrow> 'e list \<Rightarrow> 'e list \<Rightarrow> npfloat" where
  "dtw_alignment cost_of seq1 seq2 =
     np_div (get2 (dtw_matrix cost_of seq1 seq2) (length seq1) (length seq2))
       (length seq1 + length seq2)"

section \<open>Vocabulary of the statements\<close>

definition is_hexdigit :: "char \<Rightarrow> bool" where
  "is_hexdigit c = (hex_digit_value c \<noteq> None)"

text \<open>
  The buffer of the attestation signer as the specification words it (section 4.4,
  step 1): the wallet address left-padded with zero bytes to 32 bytes, followed by
  the biometric digest.
\<close>

definition attestation_buffer :: "byte list \<Rightarrow> byte list \<Rightarrow> byte list" where
  "attestation_buffer wallet digest = replicate (32 - length wallet) 0 @ wallet @ digest"

text \<open>
  The format test of \<open>test_ethereum_signatures.py\<close> (line 68) for an Ethereum
  signature: the \<open>0x\<close> prefix and 132 characters.
\<close>

definition is_ethereum_signature_format :: "string \<Rightarrow> bool" where
  "is_ethereum_signature_format s = (startswith s ''0x'' \<and> length s = 132)"

text \<open>
  The preimage of \<open>solidityKeccak256(["address", "bytes32"], [userAddress, faceHash])\<close>,
  the computation that the comments of \<open>utils.py\<close> (lines 97 to 104) and the
  verifier code quoted in \<open>test_ethereum_signatures.py\<close> (lines 55 to 58 and 154 to
  157) name: the tightly packed encoding, the 20 bytes of the address followed by the
  32 bytes of the hash.
\<close>

definition packed_preimage :: "byte list \<Rightarrow> byte list \<Rightarrow> byte list" where
  "packed_preimage wallet digest = wallet @ digest"

text \<open>
  Stand-ins for the library primitives, to run the model on concrete inputs. They
  have the types of the primitives and none of their cryptographic content. A key
  loads when it is 32 bytes in hexadecimal, with or without \<open>0x\<close>, and every signing
  with a loaded key succeeds. \<open>test_key\<close> is the backend key of
  \<open>test_ethereum_signatures.py\<close>.
\<close>

definition toy_crypto :: "byte list crypto" where
  "toy_crypto =
     \<lparr> keccak = (\<lambda>bs. take 32 (rev bs @ replicate 32 0)),
       sha256 = (\<lambda>s. of_nat (length s)),
       from_key = (\<lambda>k. case fromhex (if startswith k ''0x'' then drop 2 k else k) of
                          None \<Rightarrow> None
                        | Some bs \<Rightarrow> if length bs = 32 then Some bs else None),
       sign_hash = (\<lambda>k m. Some \<lparr> sig_r = of_nat (length k), sig_s = of_nat (length m),
                                 sig_v = 27 \<rparr>),
       sign_message = (\<lambda>k m. Some \<lparr> sig_r = of_nat (length k), sig_s = of_nat (length m),
                                    sig_v = 28 \<rparr>) \<rparr>"

definition test_key :: string where
  "test_key = ''0x47e179ec197488593b187f80a00eb0da91f1b9d0b13f8733639f19c30a34926a''"

text \<open>
  A session on which nothing passes the face stage (its only event is a poll after
  the deadline), a frame with both eyes closed at time \<open>t\<close>, a frame with the mouth
  open by \<open>h\<close> at time \<open>t\<close>, and a fresh session object.
\<close>

definition toy_environment :: "byte list environment" where
  "toy_environment =
     \<lparr> crypto_lib = toy_crypto, challenge = blink, face_start_time = 1000,
       face_events = [Poll 1008], phrase = ''Alpha Bravo Charlie 42'',
       recording = Some [1 / 2, - 1 / 2], recording_frames = [],
       extract_mfcc = (\<lambda>a. Some a), voice_similarity = 9 / 10,
       lip_correlation = (\<lambda>l a. Some 1), verification_timestamp = 1700000000,
       env_backend_private_key = Some test_key, created_backend_private_key = test_key,
       log_raises = False \<rparr>"

definition closed_eyes :: "real \<Rightarrow> frame" where
  "closed_eyes t =
     \<lparr> frame_time = t, left_ear = 2 / 10, right_ear = 2 / 10, smile_ratio = 0,
       yaw = 0, pitch = 0, lip_landmarks = [] \<rparr>"


definition alice :: verification where
  "alice = new_verification ''alice'' ''0x1111111111111111111111111111111111111111'' 123456"

text \<open>A \<open>float64\<close> that is neither an infinity nor \<open>NaN\<close>.\<close>

definition is_finite :: "npfloat \<Rightarrow> bool" where
  "is_finite v = (case v of Fin x \<Rightarrow> True | PInf \<Rightarrow> False | NInf \<Rightarrow> False | NaN \<Rightarrow> False)"

text \<open>
  The invariant of the table loops: the table has \<open>n + 1\<close> rows of \<open>n + 1\<close> cells,
  and every cell is a non-negative number or \<open>np.inf\<close>.
\<close>

definition nonneg_cell :: "npfloat \<Rightarrow> bool" where
  "nonneg_cell v = (case v of Fin x \<Rightarrow> 0 \<le> x | PInf \<Rightarrow> True | NInf \<Rightarrow> False | NaN \<Rightarrow> False)"


section \<open>Properties\<close>

subsection \<open>Hexadecimal strings\<close>

lemma hex_digit_cases: "n < 16 \<Longrightarrow> n = 0 \<or> n = 1 \<or> n = 2 \<or> n = 3 \<or> n = 4 \<or> n = 5 \<or> n = 6 \<or> n = 7 \<or> n = 8 \<or> n = 9 \<or> n = 10 \<or> n = 11 \<or> n = 12 \<or> n = 13 \<or> n = 14 \<or> n = (15::nat)"
  by arith

lemma hex_digit_value_hex_digit: "n < 16 \<Longrightarrow> hex_digit_value (hex_digit n) = Some n"
  by (drule hex_digit_cases) (auto simp: hex_digit_value_def hex_digit_def)

lemma hex_digit_not_space: "n < 16 \<Longrightarrow> \<not> is_space (hex_digit n)"
  by (drule hex_digit_cases) (auto simp: is_space_def hex_digit_def)

lemma is_hexdigit_not_space: "is_hexdigit c \<Longrightarrow> \<not> is_space c"
  by (auto simp: is_hexdigit_def is_space_def hex_digit_value_def)

lemma is_hexdigit_not_x: "is_hexdigit c \<Longrightarrow> c \<noteq> CHR ''x''"
  by (auto simp: is_hexdigit_def hex_digit_value_def)

lemma is_hexdigit_zero: "is_hexdigit CHR ''0''"
  by (simp add: is_hexdigit_def hex_digit_value_def)

lemma hex_digit_value_zero: "hex_digit_value CHR ''0'' = Some 0"
  by (simp add: hex_digit_value_def)

lemma byte_hi_nibble: "unat (b :: byte) div 16 < 16"
proof -
  have "unat b < 2 ^ LENGTH(8)" by (rule unsigned_less)
  then show ?thesis by simp
qed

lemma byte_lo_nibble: "unat (b :: byte) mod 16 < 16"
  by simp

lemma byte_of_nibbles: "(of_nat (16 * (unat b div 16) + unat b mod 16) :: byte) = b"
  by simp

lemma fromhex_hex_of_bytes: "fromhex (hex_of_bytes bs) = Some bs"
  by (induction bs) (simp_all add: hex_of_bytes_def hex_of_byte_def hex_digit_value_hex_digit hex_digit_not_space byte_hi_nibble)

lemma length_hex_of_bytes: "length (hex_of_bytes bs) = 2 * length bs"
  by (induction bs) (simp_all add: hex_of_bytes_def hex_of_byte_def)

lemma length_bytes32: "length (bytes32 w) = 32"
  by (simp add: bytes32_def)

lemma list_all_hex_of_bytes: "list_all is_hexdigit (hex_of_bytes bs)"
  by (induction bs) (simp_all add: hex_of_bytes_def hex_of_byte_def is_hexdigit_def hex_digit_value_hex_digit byte_hi_nibble)

lemma fromhex_hexdigits:
  "list_all is_hexdigit s \<Longrightarrow> even (length s) \<Longrightarrow> \<exists>bs. fromhex s = Some bs \<and> 2 * length bs = length s"
proof (induction s rule: fromhex.induct)
  case 1
  then show ?case by simp
next
  case (2 c)
  then show ?case by simp
next
  case (3 c d ds)
  from "3.prems" have c: "is_hexdigit c" and d: "is_hexdigit d"
    and rest: "list_all is_hexdigit ds" by simp_all
  from c d obtain hi lo where hi: "hex_digit_value c = Some hi"
    and lo: "hex_digit_value d = Some lo"
    by (auto simp: is_hexdigit_def)
  have ns: "\<not> is_space c"
    using c by (rule is_hexdigit_not_space)
  from "3.prems" have "even (length ds)" by simp
  with "3.IH"(2) [OF ns hi lo rest] obtain bs
    where "fromhex ds = Some bs" and "2 * length bs = length ds" by blast
  then show ?case using ns hi lo by simp
qed

lemma fromhex_zeros: "fromhex (replicate (2 * n) CHR ''0'') = Some (replicate n 0)"
  by (induction n) (simp_all add: hex_digit_value_zero is_space_def)

lemma fromhex_append:
  "fromhex (hex_of_bytes bs @ s) = map_option ((@) bs) (fromhex s)"
  by (induction bs) (simp_all add: hex_of_bytes_def hex_of_byte_def hex_digit_value_hex_digit hex_digit_not_space byte_hi_nibble option.map_comp comp_def option.map_ident)

lemma hexdigits_not_prefixed: "list_all is_hexdigit s \<Longrightarrow> \<not> startswith s ''0x''"
proof (cases s)
  case Nil
  then show ?thesis by (simp add: startswith_def)
next
  case (Cons c cs)
  assume h: "list_all is_hexdigit s"
  show ?thesis
  proof (cases cs)
    case Nil
    with Cons show ?thesis by (simp add: startswith_def)
  next
    case (Cons d ds)
    with h \<open>s = c # cs\<close> have "is_hexdigit d" by simp
    then have "d \<noteq> CHR ''x''" by (rule is_hexdigit_not_x)
    with Cons \<open>s = c # cs\<close> show ?thesis by (simp add: startswith_def)
  qed
qed

lemma normalize_address_hex:
  "list_all is_hexdigit s \<Longrightarrow> normalize_address s = CHR ''0'' # CHR ''x'' # s"
  by (simp add: normalize_address_def hexdigits_not_prefixed)

lemma normalize_address_prefixed:
  "normalize_address (CHR ''0'' # CHR ''x'' # s) = CHR ''0'' # CHR ''x'' # s"
  by (simp add: normalize_address_def startswith_def)

lemma normalize_hash_hex:
  "list_all is_hexdigit s \<Longrightarrow>
   normalize_hash s = CHR ''0'' # CHR ''x'' # s @ replicate (64 - length s) CHR ''0''"
  by (simp add: normalize_hash_def hexdigits_not_prefixed ljust_def Let_def)

lemma normalize_hash_prefixed:
  "normalize_hash (CHR ''0'' # CHR ''x'' # s) =
   CHR ''0'' # CHR ''x'' # s @ replicate (64 - length s) CHR ''0''"
  by (simp add: normalize_hash_def startswith_def ljust_def Let_def)

lemma length_signature_hex: "length (signature_hex sg) = 132"
  by (simp add: signature_hex_def signature_bytes_def length_hex_of_bytes length_bytes32)

lemma signature_hex_format: "is_ethereum_signature_format (signature_hex sg)"
  by (simp add: is_ethereum_signature_format_def length_signature_hex)
     (simp add: signature_hex_def startswith_def)

lemma length_generate_hash: "length (generate_hash lib d) = 64"
  by (simp add: generate_hash_def length_hex_of_bytes length_bytes32)

lemma fromhex_padded_bytes:
  "length ds \<le> 32 \<Longrightarrow>
   fromhex (hex_of_bytes ds @ replicate (64 - 2 * length ds) CHR ''0'')
     = Some (ds @ replicate (32 - length ds) 0)"
proof -
  assume "length ds \<le> 32"
  then have "64 - 2 * length ds = 2 * (32 - length ds)" by simp
  then show ?thesis by (simp add: fromhex_append fromhex_zeros)
qed

lemma list_all_replicate_zero: "list_all is_hexdigit (replicate n CHR ''0'')"
  by (induction n) (simp_all add: is_hexdigit_zero)

lemma toy_simps:
  "keccak toy_crypto bs = take 32 (rev bs @ replicate 32 0)"
  "sha256 toy_crypto s = of_nat (length s)"
  "sign_hash toy_crypto a m
     = Some \<lparr> sig_r = of_nat (length a), sig_s = of_nat (length m), sig_v = 27 \<rparr>"
  "sign_message toy_crypto a t
     = Some \<lparr> sig_r = of_nat (length a), sig_s = of_nat (length t), sig_v = 28 \<rparr>"
  by (simp_all add: toy_crypto_def)

lemma from_key_test_key:
  "\<exists>bs. from_key toy_crypto test_key = Some bs \<and> length bs = 32"
  by (simp add: toy_crypto_def test_key_def startswith_def hex_digit_value_def is_space_def)

lemma from_key_empty: "from_key toy_crypto [] = None"
  by (simp add: toy_crypto_def startswith_def)


subsection \<open>What the stages leave unchanged\<close>

lemma blink_text: "contains ''blink'' (py_lower (challenge_text blink))"
  by (simp add: py_lower_def)

lemma analyze_challenge_keeps:
  "voice_match (analyze_challenge ch f st) = voice_match st"
  "lip_sync (analyze_challenge ch f st) = lip_sync st"
  "instructions (analyze_challenge ch f st) = instructions st"
  "verification_logs (analyze_challenge ch f st) = verification_logs st"
  "voice_phrase (analyze_challenge ch f st) = voice_phrase st"
  "audio_buffer (analyze_challenge ch f st) = audio_buffer st"
  "lip_sequence (analyze_challenge ch f st) = lip_sequence st"
  "current_challenge (analyze_challenge ch f st) = current_challenge st"
  "overall_result (analyze_challenge ch f st) = overall_result st"
  "submitted (analyze_challenge ch f st) = submitted st"
  by (simp_all add: analyze_challenge_def)

lemma analyze_frame_keeps:
  "voice_match (analyze_frame st f) = voice_match st"
  "lip_sync (analyze_frame st f) = lip_sync st"
  "instructions (analyze_frame st f) = instructions st"
  "verification_logs (analyze_frame st f) = verification_logs st"
  "voice_phrase (analyze_frame st f) = voice_phrase st"
  "audio_buffer (analyze_frame st f) = audio_buffer st"
  "current_challenge (analyze_frame st f) = current_challenge st"
  "overall_result (analyze_frame st f) = overall_result st"
  "submitted (analyze_frame st f) = submitted st"
  by (simp_all add: analyze_frame_def Let_def analyze_challenge_keeps split: option.splits)




lemma face_poll_keeps:
  "voice_match (face_poll ch t0 st es) = voice_match st"
  "lip_sync (face_poll ch t0 st es) = lip_sync st"
  "instructions (face_poll ch t0 st es) = instructions st"
  "verification_logs (face_poll ch t0 st es) = verification_logs st"
  "voice_phrase (face_poll ch t0 st es) = voice_phrase st"
  "overall_result (face_poll ch t0 st es) = overall_result st"
  "submitted (face_poll ch t0 st es) = submitted st"
  by (induction ch t0 st es rule: face_poll.induct; simp add: analyze_frame_keeps)+

lemma perform_face_keeps:
  "voice_match (snd (perform_face_liveness_challenge ch t0 es st)) = voice_match st"
  "lip_sync (snd (perform_face_liveness_challenge ch t0 es st)) = lip_sync st"
  "instructions (snd (perform_face_liveness_challenge ch t0 es st)) = instructions st"
  "verification_logs (snd (perform_face_liveness_challenge ch t0 es st)) = verification_logs st"
  "voice_phrase (snd (perform_face_liveness_challenge ch t0 es st)) = voice_phrase st"
  "face_liveness (snd (perform_face_liveness_challenge ch t0 es st))
     = fst (perform_face_liveness_challenge ch t0 es st)"
  "overall_result (snd (perform_face_liveness_challenge ch t0 es st)) = overall_result st"
  "submitted (snd (perform_face_liveness_challenge ch t0 es st)) = submitted st"
  by (simp_all add: perform_face_liveness_challenge_def Let_def face_poll_keeps)

lemma face_poll_deadline:
  "timeout \<le> t - t0 \<Longrightarrow> face_poll ch t0 st (Poll t # es) = st"
  by simp








lemma analyze_frame_blink:
  "current_challenge st = Some (challenge_text blink) \<Longrightarrow>
   blink_count (analyze_frame st f)
     = (if detect_blink f \<and> frame_time f - last_blink_time st > 5 / 10
        then blink_count st + 1 else blink_count st)
   \<and> last_blink_time (analyze_frame st f)
     = (if detect_blink f \<and> frame_time f - last_blink_time st > 5 / 10
        then frame_time f else last_blink_time st)
   \<and> face_liveness (analyze_frame st f) = face_liveness st"
  using blink_text
  by (simp add: analyze_frame_def analyze_challenge_def Let_def del: challenge_text.simps)
     (simp)

lemma detect_blink_closed_eyes: "detect_blink (closed_eyes t)"
  by (simp add: detect_blink_def closed_eyes_def BLINK_THRESHOLD_def)

lemma toy_face_fails:
  "\<not> fst (perform_face_liveness_challenge (challenge toy_environment)
           (face_start_time toy_environment) (face_events toy_environment)
           (update_instruction Stage1_Face_Liveness alice))"
  by (simp add: toy_environment_def perform_face_liveness_challenge_def Let_def
      timeout_def update_instruction_def alice_def new_verification_def)

subsection \<open>Signatures and log rows\<close>

lemma fallback_length:
  "length (''0x'' @ generate_hash lib d) = 66"
  by (simp add: length_generate_hash)

lemma try_zz: "ethereum_signature_try toy_crypto ''zz''
          ''0x1111111111111111111111111111111111111111'' test_key = None"
  by (simp add: ethereum_signature_try_def message_hash_def normalize_address_def
        normalize_hash_def startswith_def rjust_def ljust_def hex_digit_value_def
        is_space_def numeral_eq_Suc)

lemma signature_hex_nonempty: "signature_hex sg \<noteq> []"
  by (simp add: signature_hex_def)

lemma sign_data_simple_nonempty: "sign_data_simple lib d w k \<noteq> []"
  by (simp add: sign_data_simple_def Let_def signature_hex_nonempty split: option.splits)

lemma generate_ethereum_signature_nonempty: "generate_ethereum_signature lib b u k \<noteq> []"
  by (auto simp: generate_ethereum_signature_def ethereum_signature_try_def
      sign_data_simple_nonempty signature_hex_nonempty split: option.splits)

lemma generate_hash_nonempty: "generate_hash lib d \<noteq> []"
  using length_generate_hash [of lib d] by auto



lemma final_stage_log:
  "\<exists>e. verification_logs (final_stage env st) = verification_logs st @ [e]
       \<and> log_face_liveness e = face_liveness st \<and> log_voice_match e = voice_match st
       \<and> log_lip_sync e = lip_sync st
       \<and> log_overall_result e
           = (face_liveness st \<and> voice_match st \<and> lip_sync st \<and> \<not> log_raises env)
       \<and> (log_hash_value e \<noteq> []) = log_overall_result e
       \<and> (log_signature e \<noteq> []) = log_overall_result e
       \<and> (submitted (final_stage env st) \<noteq> submitted st) = log_overall_result e
       \<and> (last (instructions (final_stage env st)) = Completed) = log_overall_result e"
proof (cases "all_passed st \<and> \<not> log_raises env")
  case True
  then show ?thesis
    by (simp add: final_stage_def perform_final_verification_def Let_def all_passed_def
        verification_successful_def update_instruction_def log_verification_def
        generate_hash_nonempty generate_ethereum_signature_nonempty)
next
  case False
  then have "perform_final_verification env (update_instruction Stage3_Processing st)
              = (False, update_instruction Stage3_Processing st)"
    by (auto simp: perform_final_verification_def Let_def all_passed_def update_instruction_def)
  with False show ?thesis
    by (auto simp: final_stage_def all_passed_def verification_failed_def
        update_instruction_def log_verification_def)
qed




lemma voice_match_step_draw:
  "audio_data \<noteq> [] \<Longrightarrow> extract_mfcc env audio_data = Some features \<Longrightarrow>
   voice_match_step env st audio_data
     = Some (st\<lparr> voice_match := voice_similarity env > 85 / 100 \<rparr>)"
  by (simp add: voice_match_step_def VOICE_SIMILARITY_THRESHOLD_def)

subsection \<open>The table of the alignment\<close>

lemma nonneg_cell_simps [simp]:
  "nonneg_cell (Fin x) = (0 \<le> x)" "nonneg_cell PInf" "\<not> nonneg_cell NInf" "\<not> nonneg_cell NaN"
  by (simp_all add: nonneg_cell_def)

lemma is_finite_simps [simp]:
  "is_finite (Fin x)" "\<not> is_finite PInf" "\<not> is_finite NInf" "\<not> is_finite NaN"
  by (simp_all add: is_finite_def)



















lemma dtw_example:
  "dtw_alignment float64_cost [Fin 1, Fin 3] [Fin 1, Fin 2, Fin 3] = Fin (1 / 5)"
  by (simp add: dtw_alignment_def dtw_matrix_def dtw_row_def dtw_cell_def get2_def set2_def
      np_full_def py_min3_def float64_cost_def Let_def upt_rec numeral_eq_Suc)

subsection \<open>Decision fusion\<close>

text \<open>
  Claim C1, as the code has it. The verdict is true exactly when the three stage
  results \<open>face_liveness\<close>, \<open>voice_match\<close> and \<open>lip_sync\<close> are all true and the row
  of the passed session is written without an error: a false stage always gives the
  verdict false, and the handler of the final verification turns a write that raises
  into the verdict false. Nothing else changes the verdict: it is the same whatever
  the library, the keys and the clock are, the workflow reports success exactly
  then, and the row it writes carries the verdict as \<open>overall_result\<close>.
\<close>

theorem fused_verdict_with_store:
  "fst (perform_final_verification env st)
     = (face_liveness st \<and> voice_match st \<and> lip_sync st \<and> \<not> log_raises env)
   \<and> (last (instructions (final_stage env st)) = Completed)
     = (face_liveness st \<and> voice_match st \<and> lip_sync st \<and> \<not> log_raises env)
   \<and> log_overall_result (last (verification_logs (final_stage env st)))
     = (face_liveness st \<and> voice_match st \<and> lip_sync st \<and> \<not> log_raises env)
   \<and> fst (perform_final_verification
         (env\<lparr> crypto_lib := lib, verification_timestamp := ts,
               env_backend_private_key := k1, created_backend_private_key := k2 \<rparr>) st)
     = fst (perform_final_verification env st)"
proof -
  have v: "\<And>e. fst (perform_final_verification e st)
     = (face_liveness st \<and> voice_match st \<and> lip_sync st \<and> \<not> log_raises e)"
    by (auto simp: perform_final_verification_def all_passed_def Let_def)
  from final_stage_log [of env st] obtain e
    where "verification_logs (final_stage env st) = verification_logs st @ [e]"
      and "log_overall_result e
           = (face_liveness st \<and> voice_match st \<and> lip_sync st \<and> \<not> log_raises env)"
      and "(last (instructions (final_stage env st)) = Completed) = log_overall_result e"
    by blast
  then have "(last (instructions (final_stage env st)) = Completed)
       = (face_liveness st \<and> voice_match st \<and> lip_sync st \<and> \<not> log_raises env)"
    and "log_overall_result (last (verification_logs (final_stage env st)))
       = (face_liveness st \<and> voice_match st \<and> lip_sync st \<and> \<not> log_raises env)"
    by simp_all
  moreover have "fst (perform_final_verification
         (env\<lparr> crypto_lib := lib, verification_timestamp := ts,
               env_backend_private_key := k1, created_backend_private_key := k2 \<rparr>) st)
     = fst (perform_final_verification env st)"
    by (simp add: v)
  ultimately show ?thesis using v [of env] by blast
qed

theorem fused_verdict_override_counterexample:
  "face_liveness (alice\<lparr> face_liveness := True, voice_match := True, lip_sync := True \<rparr>)
   \<and> voice_match (alice\<lparr> face_liveness := True, voice_match := True, lip_sync := True \<rparr>)
   \<and> lip_sync (alice\<lparr> face_liveness := True, voice_match := True, lip_sync := True \<rparr>)
   \<and> \<not> fst (perform_final_verification (toy_environment\<lparr> log_raises := True \<rparr>)
            (alice\<lparr> face_liveness := True, voice_match := True, lip_sync := True \<rparr>))
   \<and> \<not> overall_result (snd (perform_final_verification
            (toy_environment\<lparr> log_raises := True \<rparr>)
            (alice\<lparr> face_liveness := True, voice_match := True, lip_sync := True \<rparr>)))"
  by (simp add: perform_final_verification_def all_passed_def Let_def alice_def
      new_verification_def)

theorem fused_verdict_with_store_witness:
  "fst (perform_final_verification toy_environment
         (alice\<lparr> face_liveness := True, voice_match := True, lip_sync := True \<rparr>))
   \<and> \<not> fst (perform_final_verification toy_environment
         (alice\<lparr> face_liveness := True, voice_match := True, lip_sync := False \<rparr>))
   \<and> \<not> fst (perform_final_verification (toy_environment\<lparr> log_raises := True \<rparr>)
         (alice\<lparr> face_liveness := True, voice_match := True, lip_sync := True \<rparr>))"
  using fused_verdict_with_store [of toy_environment
      "alice\<lparr> face_liveness := True, voice_match := True, lip_sync := True \<rparr>"]
    fused_verdict_with_store [of toy_environment
      "alice\<lparr> face_liveness := True, voice_match := True, lip_sync := False \<rparr>"]
    fused_verdict_with_store [of "toy_environment\<lparr> log_raises := True \<rparr>"
      "alice\<lparr> face_liveness := True, voice_match := True, lip_sync := True \<rparr>"]
  by (simp add: toy_environment_def)

subsection \<open>The attestation message hash\<close>

text \<open>
  For a wallet address of 40 and a biometric hash of 64 hexadecimal digits of either
  case, each with or without the \<open>0x\<close> prefix, the message hash is Keccak-256 of the
  64-byte buffer made of the address left-padded with zero bytes to 32 bytes and of
  the digest. That buffer is never the packed preimage of \<open>solidityKeccak256\<close>.
\<close>

lemma packed_preimage_differs:
  "length wallet < 32 \<Longrightarrow> attestation_buffer wallet digest \<noteq> packed_preimage wallet digest"
proof
  assume l: "length wallet < 32"
    and e: "attestation_buffer wallet digest = packed_preimage wallet digest"
  from e have "length (attestation_buffer wallet digest) = length (packed_preimage wallet digest)"
    by simp
  with l show False by (simp add: attestation_buffer_def packed_preimage_def)
qed

lemma message_hash_padded_buffer:
  assumes hexa: "list_all is_hexdigit hexa" "length hexa = 40"
    and hexd: "list_all is_hexdigit hexd" "length hexd = 64"
    and ua: "ua = hexa \<or> ua = ''0x'' @ hexa"
    and bh: "bh = hexd \<or> bh = ''0x'' @ hexd"
  shows "\<exists>wallet digest. fromhex hexa = Some wallet \<and> fromhex hexd = Some digest
           \<and> length wallet = 20 \<and> length digest = 32
           \<and> message_hash lib bh ua = Some (keccak lib (attestation_buffer wallet digest))
           \<and> attestation_buffer wallet digest = replicate 12 0 @ wallet @ digest
           \<and> length (attestation_buffer wallet digest) = 64
           \<and> length (packed_preimage wallet digest) = 52
           \<and> attestation_buffer wallet digest \<noteq> packed_preimage wallet digest"
proof -
  from hexa fromhex_hexdigits [of hexa] obtain wallet
    where w: "fromhex hexa = Some wallet" and lw: "length wallet = 20" by auto
  from hexd fromhex_hexdigits [of hexd] obtain digest
    where d: "fromhex hexd = Some digest" and ld: "length digest = 32" by auto
  have a: "normalize_address ua = CHR ''0'' # CHR ''x'' # hexa"
    using ua hexa(1) by (auto simp: normalize_address_hex normalize_address_prefixed)
  have h: "normalize_hash bh = CHR ''0'' # CHR ''x'' # hexd"
    using bh hexd by (auto simp: normalize_hash_hex normalize_hash_prefixed)
  have a': "fromhex (rjust (drop 2 (normalize_address ua)) 40 CHR ''0'') = Some wallet"
    using hexa(2) w by (simp add: a rjust_def)
  have h': "fromhex (rjust (drop 2 (normalize_hash bh)) 64 CHR ''0'') = Some digest"
    using hexd(2) d by (simp add: h rjust_def)
  have r: "rjust wallet 32 0 = replicate 12 0 @ wallet"
    using lw by (simp add: rjust_def)
  have m: "message_hash lib bh ua = Some (keccak lib (attestation_buffer wallet digest))"
    using lw by (simp add: message_hash_def a' h' r attestation_buffer_def)
  have n: "attestation_buffer wallet digest \<noteq> packed_preimage wallet digest"
    using lw by (intro packed_preimage_differs) simp
  show ?thesis
    using w d lw ld m n
    by (intro exI [of _ wallet] exI [of _ digest])
       (simp add: attestation_buffer_def packed_preimage_def)
qed

text \<open>
  Claim C4, evaluated on the code. For the first address and hash of
  \<open>test_ethereum_signatures.py\<close>, the message hash is Keccak-256 of the 64-byte
  buffer with the address left-padded to 32 bytes, while the verifier named by the
  code hashes the packed 52 bytes: the two preimages differ.
\<close>

theorem message_hash_not_packed_preimage:
  "\<exists>wallet digest.
       fromhex ''742d35Cc6629C0532E3D60C1dcBfC62E2AaF0e19'' = Some wallet
     \<and> fromhex ''a1b2c3d4e5f67890abcdef1234567890abcdef1234567890abcdef1234567890''
         = Some digest
     \<and> message_hash toy_crypto
         ''0xa1b2c3d4e5f67890abcdef1234567890abcdef1234567890abcdef1234567890''
         ''0x742d35Cc6629C0532E3D60C1dcBfC62E2AaF0e19''
         = Some (keccak toy_crypto (replicate 12 0 @ wallet @ digest))
     \<and> length (replicate 12 0 @ wallet @ digest) = 64
     \<and> length (packed_preimage wallet digest) = 52
     \<and> replicate 12 0 @ wallet @ digest \<noteq> packed_preimage wallet digest"
proof -
  have hexa: "list_all is_hexdigit ''742d35Cc6629C0532E3D60C1dcBfC62E2AaF0e19''"
    by (simp add: is_hexdigit_def hex_digit_value_def)
  have hexd: "list_all is_hexdigit
      ''a1b2c3d4e5f67890abcdef1234567890abcdef1234567890abcdef1234567890''"
    by (simp add: is_hexdigit_def hex_digit_value_def)
  have la: "length ''742d35Cc6629C0532E3D60C1dcBfC62E2AaF0e19'' = 40" by simp
  have ld: "length ''a1b2c3d4e5f67890abcdef1234567890abcdef1234567890abcdef1234567890'' = 64"
    by simp
  have ua: "''0x742d35Cc6629C0532E3D60C1dcBfC62E2AaF0e19''
              = ''742d35Cc6629C0532E3D60C1dcBfC62E2AaF0e19''
          \<or> ''0x742d35Cc6629C0532E3D60C1dcBfC62E2AaF0e19''
              = ''0x'' @ ''742d35Cc6629C0532E3D60C1dcBfC62E2AaF0e19''" by simp
  have bh: "''0xa1b2c3d4e5f67890abcdef1234567890abcdef1234567890abcdef1234567890''
              = ''a1b2c3d4e5f67890abcdef1234567890abcdef1234567890abcdef1234567890''
          \<or> ''0xa1b2c3d4e5f67890abcdef1234567890abcdef1234567890abcdef1234567890''
              = ''0x'' @ ''a1b2c3d4e5f67890abcdef1234567890abcdef1234567890abcdef1234567890''"
    by simp
  from message_hash_padded_buffer [OF hexa la hexd ld ua bh, of toy_crypto]
  obtain wallet digest
    where "fromhex ''742d35Cc6629C0532E3D60C1dcBfC62E2AaF0e19'' = Some wallet"
      and "fromhex ''a1b2c3d4e5f67890abcdef1234567890abcdef1234567890abcdef1234567890''
            = Some digest"
      and "message_hash toy_crypto
         ''0xa1b2c3d4e5f67890abcdef1234567890abcdef1234567890abcdef1234567890''
         ''0x742d35Cc6629C0532E3D60C1dcBfC62E2AaF0e19''
         = Some (keccak toy_crypto (attestation_buffer wallet digest))"
      and "attestation_buffer wallet digest = replicate 12 0 @ wallet @ digest"
      and "length (attestation_buffer wallet digest) = 64"
      and "length (packed_preimage wallet digest) = 52"
      and "attestation_buffer wallet digest \<noteq> packed_preimage wallet digest"
    by blast
  then show ?thesis
    by (intro exI [of _ wallet] exI [of _ digest]) (simp only: simp_thms)
qed

text \<open>
  Claim C10. A biometric hash of fewer than 64 hexadecimal digits, with or without
  the \<open>0x\<close> prefix, is accepted: the prefixed string is padded on the right with
  the character \<open>0\<close> to 66 characters, so a digest given as whole bytes is extended
  with zero bytes on the right, and when the key loads and signs, the signature
  returned is the one over the hash of that padded value.
\<close>

theorem short_hash_right_padded:
  assumes hex: "list_all is_hexdigit h" and short: "length h < 64"
    and arg: "bh = h \<or> bh = ''0x'' @ h"
    and addr: "fromhex (rjust (drop 2 (normalize_address ua)) 40 CHR ''0'') = Some address_bytes"
    and key: "from_key lib key = Some account"
  shows "\<exists>hash_bytes.
           normalize_hash bh = ''0x'' @ h @ replicate (64 - length h) CHR ''0''
         \<and> length (normalize_hash bh) = 66
         \<and> fromhex (h @ replicate (64 - length h) CHR ''0'') = Some hash_bytes
         \<and> length hash_bytes = 32
         \<and> (\<forall>ds. h = hex_of_bytes ds \<longrightarrow> hash_bytes = ds @ replicate (32 - length ds) 0)
         \<and> message_hash lib bh ua = Some (keccak lib (rjust address_bytes 32 0 @ hash_bytes))
         \<and> (\<forall>sg. sign_hash lib account (keccak lib (rjust address_bytes 32 0 @ hash_bytes)) = Some sg
                \<longrightarrow> generate_ethereum_signature lib bh ua key = signature_hex sg)"
proof -
  let ?p = "h @ replicate (64 - length h) CHR ''0''"
  have n: "normalize_hash bh = CHR ''0'' # CHR ''x'' # ?p"
    using arg hex by (auto simp: normalize_hash_hex normalize_hash_prefixed)
  have len: "length ?p = 64" using short by simp
  have "list_all is_hexdigit ?p" using hex by (simp add: list_all_replicate_zero)
  moreover have "even (length ?p)" using len by simp
  ultimately obtain hb where hb: "fromhex ?p = Some hb" and l2: "2 * length hb = length ?p"
    using fromhex_hexdigits by blast
  have l: "length hb = 32" using l2 len by simp
  have pad: "\<forall>ds. h = hex_of_bytes ds \<longrightarrow> hb = ds @ replicate (32 - length ds) 0"
  proof (intro allI impI)
    fix ds assume h: "h = hex_of_bytes ds"
    with short have "length ds \<le> 32" by (simp add: length_hex_of_bytes)
    from fromhex_padded_bytes [OF this] hb h
    show "hb = ds @ replicate (32 - length ds) 0" by (simp add: length_hex_of_bytes)
  qed
  have h': "fromhex (rjust (drop 2 (normalize_hash bh)) 64 CHR ''0'') = Some hb"
    using len hb by (simp add: n rjust_def)
  have mh: "message_hash lib bh ua = Some (keccak lib (rjust address_bytes 32 0 @ hb))"
    by (simp add: message_hash_def addr h')
  have sg: "\<forall>sg. sign_hash lib account (keccak lib (rjust address_bytes 32 0 @ hb)) = Some sg
                \<longrightarrow> generate_ethereum_signature lib bh ua key = signature_hex sg"
    by (simp add: generate_ethereum_signature_def ethereum_signature_try_def mh key)
  show ?thesis
    using n len hb l pad mh sg by (intro exI [of _ hb]) simp
qed

theorem short_hash_right_padded_witness:
  "normalize_hash ''beef''
     = ''0xbeef000000000000000000000000000000000000000000000000000000000000''
   \<and> message_hash toy_crypto ''beef'' ''0x1111111111111111111111111111111111111111''
     = Some (keccak toy_crypto
         (replicate 12 0 @ replicate 20 0x11 @ [0xbe, 0xef] @ replicate 30 0))
   \<and> generate_ethereum_signature toy_crypto ''beef''
       ''0x1111111111111111111111111111111111111111'' test_key
     = signature_hex \<lparr> sig_r = 32, sig_s = 32, sig_v = 27 \<rparr>"
proof -
  let ?ua = "''0x1111111111111111111111111111111111111111''"
  have hex: "list_all is_hexdigit ''beef''"
    by (simp add: is_hexdigit_def hex_digit_value_def)
  have addr: "fromhex (rjust (drop 2 (normalize_address ?ua)) 40 CHR ''0'')
                = Some (replicate 20 0x11)"
    by (simp add: normalize_address_def startswith_def rjust_def hex_digit_value_def
        is_space_def numeral_eq_Suc)
  from from_key_test_key obtain kb
    where key: "from_key toy_crypto test_key = Some kb" and lk: "length kb = 32" by blast
  have b: "''beef'' = hex_of_bytes [0xbe, 0xef]"
    by (simp add: hex_of_bytes_def hex_of_byte_def hex_digit_def)
  from short_hash_right_padded [OF hex _ _ addr key, of "''beef''"]
  obtain hb where n: "normalize_hash ''beef'' = ''0x'' @ ''beef'' @ replicate (64 - length ''beef'') CHR ''0''"
    and l: "length hb = 32"
    and p: "\<forall>ds. ''beef'' = hex_of_bytes ds \<longrightarrow> hb = ds @ replicate (32 - length ds) 0"
    and m: "message_hash toy_crypto ''beef'' ?ua
              = Some (keccak toy_crypto (rjust (replicate 20 0x11) 32 0 @ hb))"
    and s: "\<forall>sg. sign_hash toy_crypto kb (keccak toy_crypto (rjust (replicate 20 0x11) 32 0 @ hb)) = Some sg
              \<longrightarrow> generate_ethereum_signature toy_crypto ''beef'' ?ua test_key = signature_hex sg"
    by auto
  from p b have hb: "hb = [0xbe, 0xef] @ replicate 30 0" by simp
  have c1: "normalize_hash ''beef''
     = ''0xbeef000000000000000000000000000000000000000000000000000000000000''"
    using n by (simp add: numeral_eq_Suc)
  have c2: "message_hash toy_crypto ''beef'' ?ua
     = Some (keccak toy_crypto
         (replicate 12 0 @ replicate 20 0x11 @ [0xbe, 0xef] @ replicate 30 0))"
    using m by (simp add: hb rjust_def)
  have "sign_hash toy_crypto kb (keccak toy_crypto (rjust (replicate 20 0x11) 32 0 @ hb))
          = Some \<lparr> sig_r = 32, sig_s = 32, sig_v = 27 \<rparr>"
    by (simp add: toy_simps hb lk)
  with s have c3: "generate_ethereum_signature toy_crypto ''beef'' ?ua test_key
     = signature_hex \<lparr> sig_r = 32, sig_s = 32, sig_v = 27 \<rparr>" by blast
  from c1 c2 c3 show ?thesis by blast
qed

subsection \<open>The voice match\<close>

text \<open>
  Claim C2, evaluated on the code. The stage result does not come from a comparison
  with the enrolled voiceprint: a recording whose features equal the voiceprint
  (cosine similarity 1) fails when the number drawn is 0.8, and one whose features
  are orthogonal to it (cosine similarity 0) passes when the number drawn is 0.9.
  \<open>compare_voiceprints\<close> is never called by the session.
\<close>

theorem voice_match_ignores_voiceprint:
  "compare_voiceprints [1, 0] [1, 0] = 1
   \<and> voice_match_step
       (toy_environment\<lparr> extract_mfcc := (\<lambda>a. Some [1, 0]), voice_similarity := 8 / 10 \<rparr>)
       alice [1 / 2]
     = Some (alice\<lparr> voice_match := False \<rparr>)
   \<and> compare_voiceprints [0, 1] [1, 0] = 0
   \<and> voice_match_step
       (toy_environment\<lparr> extract_mfcc := (\<lambda>a. Some [0, 1]), voice_similarity := 9 / 10 \<rparr>)
       alice [1 / 2]
     = Some (alice\<lparr> voice_match := True \<rparr>)"
  by (simp add: compare_voiceprints_def dot_def norm2_def voice_match_step_def
      VOICE_SIMILARITY_THRESHOLD_def)

subsection \<open>Attestation and the persisted row\<close>



subsection \<open>A failed face stage\<close>

text \<open>
  Claim C5, as the code has it. When the face stage returns without success, the
  workflow reports the failure and ends: the instructions shown are those of stage 1
  and of the failure, no voice phrase is generated, and the row written has
  \<open>face_liveness\<close> and \<open>overall_result\<close> false with empty hash and signature.
\<close>

theorem face_failure_ends_session:
  assumes fail: "\<not> fst (perform_face_liveness_challenge (challenge env) (face_start_time env)
                      (face_events env) (update_instruction Stage1_Face_Liveness st))"
  shows "instructions (verification_workflow env st)
           = instructions st @ [Stage1_Face_Liveness, Failed ''Face liveness challenge failed'']
       \<and> voice_phrase (verification_workflow env st) = voice_phrase st
       \<and> \<not> is_verifying (verification_workflow env st)
       \<and> (\<exists>e. verification_logs (verification_workflow env st) = verification_logs st @ [e]
              \<and> \<not> log_face_liveness e \<and> \<not> log_overall_result e
              \<and> log_hash_value e = [] \<and> log_signature e = [])"
proof -
  let ?r = "perform_face_liveness_challenge (challenge env) (face_start_time env)
              (face_events env) (update_instruction Stage1_Face_Liveness st)"
  have w: "verification_workflow env st
           = (verification_failed ''Face liveness challenge failed'' (snd ?r))
               \<lparr> is_verifying := False \<rparr>"
    using fail by (auto simp: verification_workflow_def Let_def split: prod.splits)
  have f: "\<not> face_liveness (snd ?r)" using fail by (simp add: perform_face_keeps)
  show ?thesis
    using f by (simp add: w verification_failed_def log_verification_def
        update_instruction_def perform_face_keeps)
qed

theorem face_failure_skips_voice_counterexample:
  "\<not> fst (perform_face_liveness_challenge (challenge toy_environment)
           (face_start_time toy_environment) (face_events toy_environment)
           (update_instruction Stage1_Face_Liveness alice))
   \<and> Stage2_Voice \<notin> set (instructions (verification_workflow toy_environment alice))
   \<and> voice_phrase (verification_workflow toy_environment alice) = None
   \<and> length (verification_logs (verification_workflow toy_environment alice)) = 1
   \<and> \<not> is_verifying (verification_workflow toy_environment alice)"
proof -
  have w: "verification_workflow toy_environment alice
           = (verification_failed ''Face liveness challenge failed''
                (snd (perform_face_liveness_challenge (challenge toy_environment)
                   (face_start_time toy_environment) (face_events toy_environment)
                   (update_instruction Stage1_Face_Liveness alice))))
               \<lparr> is_verifying := False \<rparr>"
    using toy_face_fails by (auto simp: verification_workflow_def Let_def split: prod.splits)
  have i: "instructions (verification_workflow toy_environment alice)
           = instructions alice @ [Stage1_Face_Liveness, Failed ''Face liveness challenge failed'']"
    by (simp add: w verification_failed_def log_verification_def update_instruction_def
        perform_face_keeps)
  have v: "voice_phrase (verification_workflow toy_environment alice) = voice_phrase alice"
    by (simp add: w verification_failed_def log_verification_def update_instruction_def
        perform_face_keeps)
  have l: "length (verification_logs (verification_workflow toy_environment alice))
           = length (verification_logs alice) + 1"
    by (simp add: w verification_failed_def log_verification_def update_instruction_def
        perform_face_keeps)
  have n: "\<not> is_verifying (verification_workflow toy_environment alice)"
    by (simp add: w)
  show ?thesis
    using toy_face_fails n by (simp add: i v l) (simp add: alice_def new_verification_def)
qed

theorem face_failure_ends_session_witness:
  "instructions (verification_workflow toy_environment alice)
     = [Stage1_Face_Liveness, Failed ''Face liveness challenge failed'']
   \<and> voice_phrase (verification_workflow toy_environment alice) = None"
  using face_failure_ends_session [OF toy_face_fails]
  by (simp add: alice_def new_verification_def)

subsection \<open>Lip frames and the lip sync\<close>


subsection \<open>Blink debounce\<close>

text \<open>
  Claim C7. During a blink challenge a frame changes the blink counter only when the
  eyes are detected closed and at least 0.5 seconds have passed since the last
  counted blink, and then by one. With closed eyes seen at \<open>t\<close>, \<open>t + 0.3\<close> and
  \<open>t + 0.6\<close>, the first of them counted, the counter is 1 after the second frame and
  2 after the third, and the challenge passes at the next poll before the deadline,
  while a count of 1 does not pass.
\<close>

theorem blink_debounce_counts_two:
  assumes closed: "detect_blink f0" "detect_blink f1" "detect_blink f2"
    and t1: "frame_time f1 = frame_time f0 + 3 / 10"
    and t2: "frame_time f2 = frame_time f0 + 6 / 10"
    and first: "frame_time f0 - last_blink_time st > 5 / 10"
    and poll: "t - start_time < timeout"
  shows "(\<forall>s f. current_challenge s = Some (challenge_text blink)
              \<and> blink_count (analyze_frame s f) \<noteq> blink_count s
            \<longrightarrow> detect_blink f \<and> frame_time f - last_blink_time s \<ge> 5 / 10
                \<and> blink_count (analyze_frame s f) = blink_count s + 1)
       \<and> blink_count (snd (perform_face_liveness_challenge blink start_time
            [Frame f0, Frame f1] st)) = 1
       \<and> \<not> fst (perform_face_liveness_challenge blink start_time
            [Frame f0, Frame f1, Poll t] st)
       \<and> blink_count (snd (perform_face_liveness_challenge blink start_time
            [Frame f0, Frame f1, Frame f2, Poll t] st)) = 2
       \<and> fst (perform_face_liveness_challenge blink start_time
            [Frame f0, Frame f1, Frame f2, Poll t] st)"
proof -
  let ?s0 = "st\<lparr> current_challenge := Some (challenge_text blink), blink_count := 0,
                 face_liveness := False \<rparr>"
  let ?s1 = "analyze_frame ?s0 f0"
  let ?s2 = "analyze_frame ?s1 f1"
  let ?s3 = "analyze_frame ?s2 f2"
  have c0: "current_challenge ?s0 = Some (challenge_text blink)" by simp
  have c1: "current_challenge ?s1 = Some (challenge_text blink)"
    by (simp add: analyze_frame_keeps del: challenge_text.simps)
  have c2: "current_challenge ?s2 = Some (challenge_text blink)"
    by (simp add: analyze_frame_keeps del: challenge_text.simps)
  have s1: "blink_count ?s1 = 1 \<and> last_blink_time ?s1 = frame_time f0 \<and> \<not> face_liveness ?s1"
    using analyze_frame_blink [OF c0, of f0] closed(1) first by simp
  have s2: "blink_count ?s2 = 1 \<and> last_blink_time ?s2 = frame_time f0 \<and> \<not> face_liveness ?s2"
    using analyze_frame_blink [OF c1, of f1] closed(2) t1 s1 by simp
  have s3: "blink_count ?s3 = 2 \<and> \<not> face_liveness ?s3"
    using analyze_frame_blink [OF c2, of f2] closed(3) t2 s2 by simp
  have d: "\<forall>s f. current_challenge s = Some (challenge_text blink)
              \<and> blink_count (analyze_frame s f) \<noteq> blink_count s
            \<longrightarrow> detect_blink f \<and> frame_time f - last_blink_time s \<ge> 5 / 10
                \<and> blink_count (analyze_frame s f) = blink_count s + 1"
  proof (intro allI impI)
    fix s f
    assume a: "current_challenge s = Some (challenge_text blink)
               \<and> blink_count (analyze_frame s f) \<noteq> blink_count s"
    with analyze_frame_blink [of s f]
    show "detect_blink f \<and> frame_time f - last_blink_time s \<ge> 5 / 10
          \<and> blink_count (analyze_frame s f) = blink_count s + 1"
      by (auto split: if_splits)
  qed
  have p1: "blink_count (snd (perform_face_liveness_challenge blink start_time
            [Frame f0, Frame f1] st)) = 1"
    using s2 by (simp add: perform_face_liveness_challenge_def Let_def del: challenge_text.simps)
  have p2: "\<not> fst (perform_face_liveness_challenge blink start_time
            [Frame f0, Frame f1, Poll t] st)"
    using s2 poll by (simp add: perform_face_liveness_challenge_def Let_def del: challenge_text.simps)
  have p3: "blink_count (snd (perform_face_liveness_challenge blink start_time
            [Frame f0, Frame f1, Frame f2, Poll t] st)) = 2"
    using s3 poll by (simp add: perform_face_liveness_challenge_def Let_def del: challenge_text.simps)
  have p4: "fst (perform_face_liveness_challenge blink start_time
            [Frame f0, Frame f1, Frame f2, Poll t] st)"
    using s3 poll by (simp add: perform_face_liveness_challenge_def Let_def del: challenge_text.simps)
  from d p1 p2 p3 p4 show ?thesis by blast
qed

theorem blink_debounce_counts_two_witness:
  "blink_count (snd (perform_face_liveness_challenge blink 1000
      [Frame (closed_eyes 1001), Frame (closed_eyes (1001 + 3 / 10))] alice)) = 1
   \<and> blink_count (snd (perform_face_liveness_challenge blink 1000
      [Frame (closed_eyes 1001), Frame (closed_eyes (1001 + 3 / 10)),
       Frame (closed_eyes (1001 + 6 / 10)), Poll 1002] alice)) = 2
   \<and> fst (perform_face_liveness_challenge blink 1000
      [Frame (closed_eyes 1001), Frame (closed_eyes (1001 + 3 / 10)),
       Frame (closed_eyes (1001 + 6 / 10)), Poll 1002] alice)"
proof -
  have f: "frame_time (closed_eyes 1001) - last_blink_time alice > 5 / 10"
    by (simp add: closed_eyes_def alice_def new_verification_def)
  have t1: "frame_time (closed_eyes (1001 + 3 / 10)) = frame_time (closed_eyes 1001) + 3 / 10"
    by (simp add: closed_eyes_def)
  have t2: "frame_time (closed_eyes (1001 + 6 / 10)) = frame_time (closed_eyes 1001) + 6 / 10"
    by (simp add: closed_eyes_def)
  have p: "(1002 :: real) - 1000 < timeout" by (simp add: timeout_def)
  from blink_debounce_counts_two [OF detect_blink_closed_eyes detect_blink_closed_eyes
      detect_blink_closed_eyes t1 t2 f p]
  show ?thesis by blast
qed

subsection \<open>The signing fallback\<close>

text \<open>
  Claim C8, as the code has it. When the Ethereum signing raises, the result is that
  of \<open>sign_data_simple\<close> on the prefixed and padded arguments: if the key loads and
  the message signs, an EIP-191 signature in the same format as the Ethereum one
  (\<open>0x\<close> and 130 hexadecimal digits); if the key does not load, \<open>0x\<close> and the SHA-256
  hex digest, 66 characters. The verdict does not depend on the signing.
\<close>

theorem signing_failure_fallback:
  assumes fail: "ethereum_signature_try lib bh ua key = None"
  shows "generate_ethereum_signature lib bh ua key
           = sign_data_simple lib (normalize_hash bh) (normalize_address ua) key
       \<and> (\<forall>account sg. from_key lib key = Some account
            \<and> sign_message lib account (normalize_hash bh @ ''.'' @ normalize_address ua) = Some sg
            \<longrightarrow> generate_ethereum_signature lib bh ua key = signature_hex sg
              \<and> is_ethereum_signature_format (generate_ethereum_signature lib bh ua key))
       \<and> (from_key lib key = None
            \<longrightarrow> generate_ethereum_signature lib bh ua key
                  = ''0x'' @ generate_hash lib (normalize_hash bh @ normalize_address ua)
              \<and> length (generate_ethereum_signature lib bh ua key) = 66
              \<and> \<not> is_ethereum_signature_format (generate_ethereum_signature lib bh ua key))
       \<and> fst (perform_final_verification (env\<lparr> crypto_lib := lib \<rparr>) st)
           = (face_liveness st \<and> voice_match st \<and> lip_sync st \<and> \<not> log_raises env)
       \<and> fst (perform_final_verification (env\<lparr> crypto_lib := lib \<rparr>) st)
           = fst (perform_final_verification env st)"
proof -
  have g: "generate_ethereum_signature lib bh ua key
           = sign_data_simple lib (normalize_hash bh) (normalize_address ua) key"
    by (simp add: generate_ethereum_signature_def fail)
  have a: "\<forall>account sg. from_key lib key = Some account
            \<and> sign_message lib account (normalize_hash bh @ ''.'' @ normalize_address ua) = Some sg
            \<longrightarrow> generate_ethereum_signature lib bh ua key = signature_hex sg
              \<and> is_ethereum_signature_format (generate_ethereum_signature lib bh ua key)"
    by (auto simp: g sign_data_simple_def signature_hex_format)
  have b: "from_key lib key = None
            \<longrightarrow> generate_ethereum_signature lib bh ua key
                  = ''0x'' @ generate_hash lib (normalize_hash bh @ normalize_address ua)
              \<and> length (generate_ethereum_signature lib bh ua key) = 66
              \<and> \<not> is_ethereum_signature_format (generate_ethereum_signature lib bh ua key)"
    by (auto simp: g sign_data_simple_def is_ethereum_signature_format_def length_generate_hash)
  have c: "fst (perform_final_verification (env\<lparr> crypto_lib := lib \<rparr>) st)
           = (face_liveness st \<and> voice_match st \<and> lip_sync st \<and> \<not> log_raises env)"
    by (auto simp: perform_final_verification_def all_passed_def Let_def)
  have d: "fst (perform_final_verification (env\<lparr> crypto_lib := lib \<rparr>) st)
           = fst (perform_final_verification env st)"
    by (simp add: perform_final_verification_def all_passed_def Let_def)
  from g a b c d show ?thesis by blast
qed

theorem fallback_signature_counterexample:
  "ethereum_signature_try toy_crypto ''zz''
      ''0x1111111111111111111111111111111111111111'' test_key = None
   \<and> is_ethereum_signature_format
       (generate_ethereum_signature toy_crypto ''zz''
          ''0x1111111111111111111111111111111111111111'' test_key)"
proof -
  from from_key_test_key obtain kb where "from_key toy_crypto test_key = Some kb" by blast
  then show ?thesis
    by (simp add: try_zz generate_ethereum_signature_def sign_data_simple_def toy_simps
        signature_hex_format)
qed

theorem signing_failure_fallback_witness:
  "generate_ethereum_signature toy_crypto ''zz''
      ''0x1111111111111111111111111111111111111111'' test_key
     = signature_hex \<lparr> sig_r = 32, sig_s = 109, sig_v = 28 \<rparr>
   \<and> length (generate_ethereum_signature toy_crypto ''beef''
      ''0x1111111111111111111111111111111111111111'' []) = 66"
proof -
  let ?ua = "''0x1111111111111111111111111111111111111111''"
  from from_key_test_key obtain kb
    where k: "from_key toy_crypto test_key = Some kb" and lk: "length kb = 32" by blast
  have m: "sign_message toy_crypto kb (normalize_hash ''zz'' @ ''.'' @ normalize_address ?ua)
            = Some \<lparr> sig_r = 32, sig_s = 109, sig_v = 28 \<rparr>"
    by (simp add: toy_simps lk normalize_hash_def normalize_address_def startswith_def ljust_def)
  from signing_failure_fallback [OF try_zz] k m
  have c1: "generate_ethereum_signature toy_crypto ''zz'' ?ua test_key
     = signature_hex \<lparr> sig_r = 32, sig_s = 109, sig_v = 28 \<rparr>" by blast
  have t: "ethereum_signature_try toy_crypto ''beef'' ?ua [] = None"
    by (simp add: ethereum_signature_try_def from_key_empty split: option.splits)
  from signing_failure_fallback [OF t] from_key_empty
  have c2: "length (generate_ethereum_signature toy_crypto ''beef'' ?ua []) = 66" by blast
  from c1 c2 show ?thesis by blast
qed

subsection \<open>Self-distance of the alignment\<close>




end
